theory Spec2Isabelle
  imports Main "HOL-Library.Sublist"
begin

section \<open>The editable-wheel command of setuptools\<close>

text \<open>
  A shallow embedding of \<^verbatim>\<open>setuptools/command/editable_wheel.py\<close>. The command object
  (\<^verbatim>\<open>self\<close>) is a record that every method takes and, where the method assigns to an
  attribute, returns updated. The file system is explicit state. An exception is the
  left summand of the result; the file system is returned with it, since what a failed
  build leaves on disk is part of what is verified.

  What the command calls but does not define (the other setuptools commands, the wheel
  archive writer, the namespace-shim generator, \<^verbatim>\<open>os.path\<close>, \<^verbatim>\<open>tempfile\<close>) is a field
  of the record \<open>env\<close>: the theorems hold for every choice of them.
\<close>

subsection \<open>Paths, file system, exceptions\<close>

type_synonym path = string

datatype node = File string | Dir

type_synonym fs = "path \<Rightarrow> node option"

datatype error =
    AssertionError
  | TypeError
  | FileExistsError
  | FileNotFoundError
  | IsADirectoryError
  | NotADirectoryError
  | External string

type_synonym 'a result = "(error + 'a) \<times> fs"

text \<open>Statement after statement: the first exception ends the sequence.\<close>

definition seq :: "(fs \<Rightarrow> 'a result) \<Rightarrow> ('a \<Rightarrow> fs \<Rightarrow> 'b result) \<Rightarrow> fs \<Rightarrow> 'b result" where
  "seq m f s = (case m s of (Inl e, s') \<Rightarrow> (Inl e, s') | (Inr x, s') \<Rightarrow> f x s')"

text \<open>
  \<^verbatim>\<open>os.path.join(a, b)\<close> of \<^verbatim>\<open>posixpath\<close>: an absolute \<open>b\<close> replaces \<open>a\<close>; otherwise one
  separator stands between them.
\<close>

definition os_path_join :: "path \<Rightarrow> path \<Rightarrow> path" where
  "os_path_join a b =
     (if b \<noteq> [] \<and> hd b = CHR ''/'' then b
      else if a = [] \<or> last a = CHR ''/'' then a @ b
      else a @ ''/'' @ b)"

text \<open>
  \<^verbatim>\<open>Path(a, b)\<close> of \<^verbatim>\<open>pathlib\<close> joins the same way. A path is kept as the string that
  names it: every file-system object has one name in the model (\<^verbatim>\<open>pathlib\<close> would also
  drop a repeated separator and a \<^verbatim>\<open>.\<close> component, as \<open>Path1\<close> below does for the
  output directory that \<^verbatim>\<open>finalize_options\<close> stores).
\<close>

definition Path2 :: "path \<Rightarrow> path \<Rightarrow> path" where
  "Path2 a b = os_path_join a b"

text \<open>\<^verbatim>\<open>Path(p).name\<close>: the last component, trailing separators ignored.\<close>

definition Path_name :: "path \<Rightarrow> string" where
  "Path_name p =
     rev (takeWhile (\<lambda>c. c \<noteq> CHR ''/'') (dropWhile (\<lambda>c. c = CHR ''/'') (rev p)))"

definition endswith :: "string \<Rightarrow> string \<Rightarrow> bool" where
  "endswith s suf = suffix suf s"

definition exists :: "path \<Rightarrow> fs \<Rightarrow> bool" where
  "exists p s = (s p \<noteq> None)"

text \<open>\<open>beneath d p\<close>: \<open>p\<close> is the directory \<open>d\<close> or lies inside it.\<close>

definition with_sep :: "path \<Rightarrow> path" where
  "with_sep d = (if d = [] \<or> last d = CHR ''/'' then d else d @ ''/'')"

definition beneath :: "path \<Rightarrow> path \<Rightarrow> bool" where
  "beneath d p = (p = d \<or> prefix (with_sep d) p)"

text \<open>
  \<^verbatim>\<open>os.path.dirname(p)\<close> of \<^verbatim>\<open>posixpath\<close>: what stands before the last separator,
  without its trailing separators unless it is made of separators only. It is empty for
  a name without a directory part.
\<close>

definition os_path_dirname :: "path \<Rightarrow> path" where
  "os_path_dirname p =
     (let head = rev (dropWhile (\<lambda>c. c \<noteq> CHR ''/'') (rev p))
      in if dropWhile (\<lambda>c. c = CHR ''/'') head = [] then head
         else rev (dropWhile (\<lambda>c. c = CHR ''/'') (rev head)))"

text \<open>
  \<^verbatim>\<open>Path.mkdir(exist_ok=True)\<close>, without \<^verbatim>\<open>parents=True\<close>. The directory that is to hold
  the new one must be there: \<^verbatim>\<open>FileNotFoundError\<close> when it is absent,
  \<^verbatim>\<open>NotADirectoryError\<close> when it is a file, and nothing is created. A name without a
  directory part is made in the working directory of the process, which exists. Then an
  existing directory is accepted, an existing file is not.
\<close>

definition mkdir_exist_ok :: "path \<Rightarrow> fs \<Rightarrow> unit result" where
  "mkdir_exist_ok p s =
     (let parent = os_path_dirname p
      in if parent \<noteq> [] \<and> s parent = None then (Inl FileNotFoundError, s)
         else if parent \<noteq> [] \<and> s parent \<noteq> Some Dir then (Inl NotADirectoryError, s)
         else (case s p of
                 None \<Rightarrow> (Inr (), s(p \<mapsto> Dir))
               | Some Dir \<Rightarrow> (Inr (), s)
               | Some (File c) \<Rightarrow> (Inl FileExistsError, s)))"

definition unlink :: "path \<Rightarrow> fs \<Rightarrow> unit result" where
  "unlink p s =
     (case s p of
        None \<Rightarrow> (Inl FileNotFoundError, s)
      | Some Dir \<Rightarrow> (Inl IsADirectoryError, s)
      | Some (File c) \<Rightarrow> (Inr (), s(p := None)))"

definition write_text :: "path \<Rightarrow> string \<Rightarrow> fs \<Rightarrow> unit result" where
  "write_text p data s =
     (case s p of
        Some Dir \<Rightarrow> (Inl IsADirectoryError, s)
      | _ \<Rightarrow> (Inr (), s(p \<mapsto> File data)))"

text \<open>
  \<^verbatim>\<open>shutil.copytree(src, dst)\<close>: \<open>src\<close> must be a directory and \<open>dst\<close> must not exist;
  afterwards \<open>dst\<close> holds what \<open>src\<close> holds.
\<close>

definition copytree :: "path \<Rightarrow> path \<Rightarrow> fs \<Rightarrow> unit result" where
  "copytree src dst s =
     (case s src of
        None \<Rightarrow> (Inl FileNotFoundError, s)
      | Some (File c) \<Rightarrow> (Inl NotADirectoryError, s)
      | Some Dir \<Rightarrow>
          if s dst \<noteq> None then (Inl FileExistsError, s)
          else (Inr (),
                (\<lambda>p. if p = dst then Some Dir
                      else if prefix (with_sep dst) p
                        then s (with_sep src @ drop (length (with_sep dst)) p)
                      else s p)))"

definition rmtree :: "path \<Rightarrow> fs \<Rightarrow> fs" where
  "rmtree d s = (\<lambda>p. if beneath d p then None else s p)"

subsection \<open>Python values\<close>

text \<open>A string or \<^verbatim>\<open>None\<close> is \<open>string option\<close>; \<^verbatim>\<open>None\<close> and \<^verbatim>\<open>""\<close> are false.\<close>

definition truthy :: "string option \<Rightarrow> bool" where
  "truthy v = (case v of None \<Rightarrow> False | Some x \<Rightarrow> x \<noteq> [])"

text \<open>\<^verbatim>\<open>a or b\<close>.\<close>

definition py_or :: "string option \<Rightarrow> string option \<Rightarrow> string option" where
  "py_or a b = (if truthy a then a else b)"

text \<open>\<^verbatim>\<open>sep.join(xs)\<close>.\<close>

fun str_join :: "string \<Rightarrow> string list \<Rightarrow> string" where
  "str_join sep [] = []"
| "str_join sep [x] = x"
| "str_join sep (x # y # ys) = x @ sep @ str_join sep (y # ys)"

text \<open>\<^verbatim>\<open>x.split(c)\<close> for a separator of one character.\<close>

fun str_split :: "char \<Rightarrow> string \<Rightarrow> string list" where
  "str_split c [] = [[]]"
| "str_split c (x # xs) =
     (if x = c then [] # str_split c xs
      else (case str_split c xs of
              [] \<Rightarrow> [[x]]
            | y # ys \<Rightarrow> (x # y) # ys))"

text \<open>
  \<^verbatim>\<open>str(Path(p))\<close> of \<^verbatim>\<open>pathlib\<close> on POSIX: the root is \<^verbatim>\<open>//\<close> for exactly two leading
  separators and \<^verbatim>\<open>/\<close> for any other number of them; empty components and \<^verbatim>\<open>.\<close>
  components are dropped; the path without root and components is \<^verbatim>\<open>.\<close>.
\<close>

definition Path1 :: "path \<Rightarrow> path" where
  "Path1 p =
     (let lead = length (takeWhile (\<lambda>c. c = CHR ''/'') p);
          root = (if lead = 0 then [] else if lead = 2 then ''//'' else ''/'');
          parts = filter (\<lambda>x. x \<noteq> [] \<and> x \<noteq> ''.'')
                    (str_split (CHR ''/'') (dropWhile (\<lambda>c. c = CHR ''/'') p));
          r = root @ str_join ''/'' parts
      in if r = [] then ''.'' else r)"

definition newline :: string where
  "newline = [CHR 0x0A]"

definition os_curdir :: path where
  "os_curdir = ''.''"

subsection \<open>The collaborators\<close>

text \<open>
  \<open>bdist_wheel\<close>: the command object that \<^verbatim>\<open>reinitialize_command("bdist_wheel")\<close>
  returns, with the two methods that are called on it.
\<close>

record bdist_wheel =
  get_tag :: "string list"
  write_wheelfile :: "path option \<Rightarrow> fs \<Rightarrow> unit result"

text \<open>
  \<^item> \<open>sys_platform\<close>, \<open>os_path_*\<close>, \<open>py_repr\<close>: \<^verbatim>\<open>sys.platform\<close>, the functions of
    \<^verbatim>\<open>os.path\<close> that \<^verbatim>\<open>_normalize_path\<close> calls, and \<^verbatim>\<open>repr\<close> on a string;
  \<^item> \<open>mkdtemp\<close>: the name that \<^verbatim>\<open>TemporaryDirectory(suffix=...)\<close> chooses, or its
    failure;
  \<^item> \<open>reinitialize_bdist_wheel\<close>: \<^verbatim>\<open>self.reinitialize_command("bdist_wheel")\<close>;
  \<^item> \<open>dist_info_run\<close>: the \<^verbatim>\<open>dist_info\<close> command, finalized and run with the given
    \<^verbatim>\<open>output_dir\<close>, returning its \<^verbatim>\<open>dist_info_dir\<close>; \<open>dist_info_name\<close>: its
    \<^verbatim>\<open>name\<close>;
  \<^item> \<open>build_ext_run\<close>: \<^verbatim>\<open>build_ext\<close> run in place;
  \<^item> \<open>Installer_install_namespaces\<close>: the inherited method
    \<^verbatim>\<open>namespaces.Installer.install_namespaces\<close>. Modelled from the spec: the base
    class is not in the sources; the spec has the wrapper supply it the installation
    target and the module search root, which are what the hooks \<^verbatim>\<open>_get_target\<close> and
    \<^verbatim>\<open>_get_root\<close> return, so it is a function of the distribution's namespace
    packages and of these two values;
  \<^item> \<open>WheelFile_write_files\<close>: \<^verbatim>\<open>with WheelFile(wheel_path, "w") as wf:
    wf.write_files(tmp)\<close>, given \<open>wheel_path\<close> and \<open>tmp\<close>.
\<close>

record env =
  sys_platform :: string
  os_path_abspath :: "path \<Rightarrow> path"
  os_path_normpath :: "path \<Rightarrow> path"
  os_path_realpath :: "path \<Rightarrow> path"
  os_path_normcase :: "path \<Rightarrow> path"
  py_repr :: "string \<Rightarrow> string"
  mkdtemp :: "string \<Rightarrow> fs \<Rightarrow> error + path"
  reinitialize_bdist_wheel :: bdist_wheel
  dist_info_run :: "path option \<Rightarrow> fs \<Rightarrow> path result"
  dist_info_name :: string
  build_ext_run :: "fs \<Rightarrow> unit result"
  Installer_install_namespaces :: "string list \<Rightarrow> path \<Rightarrow> string \<Rightarrow> fs \<Rightarrow> unit result"
  WheelFile_write_files :: "path \<Rightarrow> path \<Rightarrow> fs \<Rightarrow> unit result"

text \<open>
  \<^verbatim>\<open>with TemporaryDirectory(suffix=...) as tmp: body\<close>: the directory is created, the
  body runs, and the directory is removed with all it holds, however the body ends.
\<close>

definition TemporaryDirectory ::
  "env \<Rightarrow> string \<Rightarrow> (path \<Rightarrow> fs \<Rightarrow> 'a result) \<Rightarrow> fs \<Rightarrow> 'a result" where
  "TemporaryDirectory e sfx body s =
     (case mkdtemp e sfx s of
        Inl err \<Rightarrow> (Inl err, s)
      | Inr tmp \<Rightarrow> (case body tmp (s(tmp \<mapsto> Dir)) of (r, s') \<Rightarrow> (r, rmtree tmp s')))"

subsection \<open>The command\<close>

record distribution =
  src_root :: "string option"
  package_dir :: "(string \<rightharpoonup> string) option"
  namespace_packages :: "string list option"

record editable_wheel =
  distribution :: distribution
  dist_dir :: "path option"
  dist_info_dir :: "path option"
  project_dir :: "path option"
  strict :: bool

definition initialize_options :: "editable_wheel \<Rightarrow> editable_wheel" where
  "initialize_options self =
     self\<lparr>dist_dir := None, dist_info_dir := None, project_dir := None, strict := False\<rparr>"

definition finalize_options :: "editable_wheel \<Rightarrow> fs \<Rightarrow> editable_wheel result" where
  "finalize_options self s =
     (let dist = distribution self;
          pd = (if truthy (src_root dist) then the (src_root dist) else os_curdir);
          dd = Path1 (if truthy (dist_dir self) then the (dist_dir self)
                      else os_path_join pd ''dist'');
          self' = self\<lparr>project_dir := Some pd, dist_dir := Some dd\<rparr>
      in case mkdir_exist_ok dd s of
           (Inl err, s') \<Rightarrow> (Inl err, s')
         | (Inr u, s') \<Rightarrow> (Inr self', s'))"

definition normalize_path :: "env \<Rightarrow> path \<Rightarrow> path" where
  "normalize_path e filename =
     (let file = (if sys_platform e = ''cygwin'' then os_path_abspath e filename
                  else filename)
      in os_path_normcase e (os_path_realpath e (os_path_normpath e file)))"

text \<open>
  The property \<^verbatim>\<open>target\<close>. \<^verbatim>\<open>_normalize_path(None)\<close> is a \<^verbatim>\<open>TypeError\<close> (raised by
  \<^verbatim>\<open>os.path.normpath\<close>).
\<close>

definition target :: "env \<Rightarrow> editable_wheel \<Rightarrow> error + path" where
  "target e self =
     (let pkg_dir = (case package_dir (distribution self) of
                       None \<Rightarrow> Map.empty | Some m \<Rightarrow> m)
      in case py_or (pkg_dir '''') (project_dir self) of
           None \<Rightarrow> Inl TypeError
         | Some filename \<Rightarrow> Inr (normalize_path e filename))"

text \<open>
  The two \<^verbatim>\<open>assert\<close> statements of \<^verbatim>\<open>_ensure_dist_info\<close> are modelled as Python runs
  them by default (\<^verbatim>\<open>__debug__\<close> true).
\<close>

definition ensure_dist_info :: "env \<Rightarrow> editable_wheel \<Rightarrow> fs \<Rightarrow> editable_wheel result" where
  "ensure_dist_info e self s =
     (case dist_info_dir self of
        None \<Rightarrow>
          (case dist_info_run e (dist_dir self) s of
             (Inl err, s') \<Rightarrow> (Inl err, s')
           | (Inr d, s') \<Rightarrow> (Inr (self\<lparr>dist_info_dir := Some d\<rparr>), s'))
      | Some d \<Rightarrow>
          if \<not> endswith d ''.dist-info'' then (Inl AssertionError, s)
          else if \<not> exists (Path2 d ''METADATA'') s then (Inl AssertionError, s)
          else (Inr self, s))"

text \<open>The class \<^verbatim>\<open>_NamespaceInstaller(namespaces.Installer)\<close>.\<close>

record NamespaceInstaller =
  ni_distribution :: distribution
  ni_src_root :: path
  ni_installation_dir :: path
  ni_editable_name :: string
  ni_outputs :: "string list"

definition NamespaceInstaller_init ::
  "distribution \<Rightarrow> path \<Rightarrow> string \<Rightarrow> path \<Rightarrow> NamespaceInstaller" where
  "NamespaceInstaller_init dist installation_dir editable_name root =
     \<lparr>ni_distribution = dist, ni_src_root = root,
      ni_installation_dir = installation_dir, ni_editable_name = editable_name,
      ni_outputs = []\<rparr>"

definition get_target :: "NamespaceInstaller \<Rightarrow> path" where
  "get_target inst = os_path_join (ni_installation_dir inst) (ni_editable_name inst)"

definition get_root :: "env \<Rightarrow> NamespaceInstaller \<Rightarrow> string" where
  "get_root e inst = py_repr e (ni_src_root inst)"

text \<open>
  \<^verbatim>\<open>installer.install_namespaces()\<close>: the inherited method, on this installer's
  distribution and hooks.
\<close>

definition install_namespaces :: "env \<Rightarrow> NamespaceInstaller \<Rightarrow> fs \<Rightarrow> unit result" where
  "install_namespaces e inst s =
     Installer_install_namespaces e
       (case namespace_packages (ni_distribution inst) of None \<Rightarrow> [] | Some ns \<Rightarrow> ns)
       (get_target inst) (get_root e inst) s"

definition install_namespaces_cmd ::
  "env \<Rightarrow> editable_wheel \<Rightarrow> path \<Rightarrow> string \<Rightarrow> fs \<Rightarrow> unit result" where
  "install_namespaces_cmd e self installation_dir pth_prefix s =
     (let dist = distribution self
      in if namespace_packages dist = None \<or> namespace_packages dist = Some []
         then (Inr (), s)
         else (case target e self of
                 Inl err \<Rightarrow> (Inl err, s)
               | Inr t \<Rightarrow>
                   install_namespaces e
                     (NamespaceInstaller_init dist installation_dir pth_prefix t) s))"

definition populate_wheel ::
  "env \<Rightarrow> editable_wheel \<Rightarrow> string \<Rightarrow> path \<Rightarrow> fs \<Rightarrow> unit result" where
  "populate_wheel e self dist_id unpacked_wheel_dir s =
     (let pth = Path2 unpacked_wheel_dir (''__editable__.'' @ dist_id @ ''.pth'')
      in case target e self of
           Inl err \<Rightarrow> (Inl err, s)
         | Inr t \<Rightarrow> write_text pth (t @ newline) s)"

definition build_tag :: string where
  "build_tag = ''0.editable''"

definition archive_name :: "env \<Rightarrow> bdist_wheel \<Rightarrow> string" where
  "archive_name e bw =
     dist_info_name e @ ''-'' @ build_tag @ ''-'' @ str_join ''-'' (get_tag bw) @ ''.whl''"

text \<open>The body of the \<^verbatim>\<open>with TemporaryDirectory(...)\<close> block of \<^verbatim>\<open>_create_wheel_file\<close>.\<close>

definition staging ::
  "env \<Rightarrow> editable_wheel \<Rightarrow> string \<Rightarrow> path \<Rightarrow> path \<Rightarrow> fs \<Rightarrow> unit result" where
  "staging e self editable_name wheel_path tmp s =
     (case dist_info_dir self of
        None \<Rightarrow> (Inl TypeError, s)
      | Some d \<Rightarrow>
          seq (copytree d (Path2 tmp (Path_name d))) (\<lambda>u1.
          seq (install_namespaces_cmd e self tmp editable_name) (\<lambda>u2.
          seq (populate_wheel e self editable_name tmp) (\<lambda>u3.
          WheelFile_write_files e wheel_path tmp))) s)"

definition create_wheel_file ::
  "env \<Rightarrow> editable_wheel \<Rightarrow> bdist_wheel \<Rightarrow> fs \<Rightarrow> path result" where
  "create_wheel_file e self bw s =
     (let editable_name = dist_info_name e;
          name = archive_name e bw
      in case dist_dir self of
           None \<Rightarrow> (Inl TypeError, s)
         | Some dd \<Rightarrow>
             (let wheel_path = Path2 dd name
              in seq (\<lambda>s0. if exists wheel_path s0 then unlink wheel_path s0
                           else (Inr (), s0)) (\<lambda>u1.
                 seq (TemporaryDirectory e name (staging e self editable_name wheel_path))
                   (\<lambda>u2 s2. (Inr wheel_path, s2))) s))"

text \<open>
  \<^verbatim>\<open>run\<close> has no \<^verbatim>\<open>return\<close> statement: its value is \<^verbatim>\<open>None\<close>, here the second
  component of what is returned, beside the updated command.
\<close>

definition run :: "env \<Rightarrow> editable_wheel \<Rightarrow> fs \<Rightarrow> (editable_wheel \<times> path option) result" where
  "run e self s =
     seq (ensure_dist_info e self) (\<lambda>self1.
       let bw = reinitialize_bdist_wheel e
       in seq (write_wheelfile bw (dist_info_dir self1)) (\<lambda>u1.
          seq (build_ext_run e) (\<lambda>u2.
          seq (create_wheel_file e self1 bw) (\<lambda>wheel_path s4.
            (Inr (self1, None), s4))))) s"

subsection \<open>A concrete build\<close>

text \<open>
  The project \<^verbatim>\<open>/proj\<close>, distribution \<^verbatim>\<open>foo\<close>, tag \<^verbatim>\<open>py3-none-any\<close>, built on Linux
  from the working directory \<^verbatim>\<open>/work\<close>, with collaborators that do the least their
  contracts ask for. The archive is a file whose content is the redirect file's.
\<close>

definition demo_bdist_wheel :: bdist_wheel where
  "demo_bdist_wheel =
     \<lparr>get_tag = [''py3'', ''none'', ''any''],
      write_wheelfile = (\<lambda>d s.
         case d of
           None \<Rightarrow> (Inl TypeError, s)
         | Some dir \<Rightarrow> (Inr (), s(Path2 dir ''WHEEL'' \<mapsto> File ''Wheel-Version: 1.0'')))\<rparr>"

definition demo_env :: env where
  "demo_env =
     \<lparr>sys_platform = ''linux'',
      os_path_abspath = (\<lambda>p. if p \<noteq> [] \<and> hd p = CHR ''/'' then p else os_path_join ''/work'' p),
      os_path_normpath = (\<lambda>p. if p = [] then ''.'' else p),
      os_path_realpath = (\<lambda>p. if p = ''.'' then ''/work''
                             else if p \<noteq> [] \<and> hd p = CHR ''/'' then p
                             else os_path_join ''/work'' p),
      os_path_normcase = (\<lambda>p. p),
      py_repr = (\<lambda>x. [CHR 0x27] @ x @ [CHR 0x27]),
      mkdtemp = (\<lambda>sfx s. Inr (''/tmp/tmpk3v9'' @ sfx)),
      reinitialize_bdist_wheel = demo_bdist_wheel,
      dist_info_run = (\<lambda>output_dir s.
         case output_dir of
           None \<Rightarrow> (Inl TypeError, s)
         | Some out \<Rightarrow>
             (Inr (Path2 out ''foo-1.0.dist-info''),
              s(Path2 out ''foo-1.0.dist-info'' \<mapsto> Dir,
                Path2 (Path2 out ''foo-1.0.dist-info'') ''METADATA'' \<mapsto> File ''Name: foo''))),
      dist_info_name = ''foo'',
      build_ext_run = (\<lambda>s. (Inr (), s)),
      Installer_install_namespaces = (\<lambda>ns tgt root s.
         (Inr (), s(tgt @ ''-nspkg.pth'' \<mapsto> File root))),
      WheelFile_write_files = (\<lambda>wheel_path tmp s.
         (Inr (), s(wheel_path := s (Path2 tmp ''__editable__.foo.pth''))))\<rparr>"

definition demo_dist :: distribution where
  "demo_dist = \<lparr>src_root = Some ''/proj'', package_dir = None, namespace_packages = None\<rparr>"

definition demo_cmd :: editable_wheel where
  "demo_cmd =
     \<lparr>distribution = demo_dist, dist_dir = Some ''/proj/dist'', dist_info_dir = None,
      project_dir = Some ''/proj'', strict = False\<rparr>"

definition demo_fs :: fs where
  "demo_fs = [''/proj'' \<mapsto> Dir, ''/proj/dist'' \<mapsto> Dir]"

definition demo_wheel_path :: path where
  "demo_wheel_path = ''/proj/dist/foo-0.editable-py3-none-any.whl''"

text \<open>The same command once \<^verbatim>\<open>dist_info\<close> has run, and the file system it then sees.\<close>

definition demo_cmd_built :: editable_wheel where
  "demo_cmd_built = demo_cmd\<lparr>dist_info_dir := Some ''/proj/dist/foo-1.0.dist-info''\<rparr>"

definition demo_fs_built :: fs where
  "demo_fs_built =
     demo_fs(''/proj/dist/foo-1.0.dist-info'' \<mapsto> Dir,
             ''/proj/dist/foo-1.0.dist-info/METADATA'' \<mapsto> File ''Name: foo'')"

text \<open>The command before \<^verbatim>\<open>finalize_options\<close>, and the disk before \<^verbatim>\<open>dist\<close> exists.\<close>

definition demo_cmd_initial :: editable_wheel where
  "demo_cmd_initial =
     \<lparr>distribution = demo_dist, dist_dir = None, dist_info_dir = None, project_dir = None,
      strict = False\<rparr>"

definition demo_fs_initial :: fs where
  "demo_fs_initial = [''/proj'' \<mapsto> Dir]"

text \<open>The same without a source root: the project is the working directory.\<close>

definition demo_cmd_no_root :: editable_wheel where
  "demo_cmd_no_root = demo_cmd_initial\<lparr>distribution := demo_dist\<lparr>src_root := None\<rparr>\<rparr>"

text \<open>
  An archive writer that opens its destination, writes the first bytes and then fails
  (a full disk, an unreadable file in the staging directory).
\<close>

definition failing_writer_env :: env where
  "failing_writer_env =
     demo_env\<lparr>WheelFile_write_files := (\<lambda>wheel_path tmp s.
        (Inl (External ''No space left on device''), s(wheel_path \<mapsto> File ''PK'')))\<rparr>"

text \<open>An archive writer that fails before it opens its destination.\<close>

definition refusing_writer_env :: env where
  "refusing_writer_env =
     demo_env\<lparr>WheelFile_write_files := (\<lambda>wheel_path tmp s.
        (Inl (External ''Permission denied''), s))\<rparr>"

text \<open>
  A distribution built from another directory than the project's, whose root package
  is mapped to the empty string; one that declares a namespace package; a supplied
  dist-info directory with the wrong suffix.
\<close>

definition demo_cmd_empty_root :: editable_wheel where
  "demo_cmd_empty_root =
     demo_cmd\<lparr>distribution := demo_dist\<lparr>package_dir := Some (Map.empty('''' \<mapsto> ''''))\<rparr>\<rparr>"

definition demo_cmd_src :: editable_wheel where
  "demo_cmd_src =
     demo_cmd\<lparr>distribution := demo_dist\<lparr>package_dir := Some (Map.empty('''' \<mapsto> ''/proj/src''))\<rparr>\<rparr>"

definition demo_cmd_ns :: editable_wheel where
  "demo_cmd_ns =
     demo_cmd_built\<lparr>distribution := demo_dist\<lparr>namespace_packages := Some [''ns'']\<rparr>\<rparr>"

definition demo_cmd_bad_suffix :: editable_wheel where
  "demo_cmd_bad_suffix = demo_cmd\<lparr>dist_info_dir := Some ''/proj/dist/foo-1.0.egg-info''\<rparr>"

section \<open>Properties\<close>

subsection \<open>Sequencing and the scoped staging directory\<close>

lemma seq_Inr:
  "seq m f s = (Inr y, s') \<longleftrightarrow> (\<exists>x s1. m s = (Inr x, s1) \<and> f x s1 = (Inr y, s'))"
  by (cases "m s") (auto simp: seq_def split: sum.splits)

lemma seq_Inl:
  "seq m f s = (Inl err, s') \<longleftrightarrow>
     m s = (Inl err, s') \<or> (\<exists>x s1. m s = (Inr x, s1) \<and> f x s1 = (Inl err, s'))"
  by (cases "m s") (auto simp: seq_def split: sum.splits)

lemma snd_seq_return:
  "snd (seq m (\<lambda>u s2. (Inr c, s2)) s) = snd (m s)"
  by (cases "m s") (auto simp: seq_def split: sum.splits)

lemma pair_collapse: "fst x = a \<Longrightarrow> x = (a, snd x)"
  by (cases x) simp

lemma TemporaryDirectory_removes:
  "mkdtemp e sfx s = Inr tmp \<Longrightarrow> beneath tmp p \<Longrightarrow>
     snd (TemporaryDirectory e sfx body s) p = None"
  by (simp add: TemporaryDirectory_def rmtree_def split: prod.splits)

lemma TemporaryDirectory_Inr:
  "TemporaryDirectory e sfx body s = (Inr y, s') \<longleftrightarrow>
     (\<exists>tmp s1. mkdtemp e sfx s = Inr tmp \<and> body tmp (s(tmp \<mapsto> Dir)) = (Inr y, s1)
        \<and> s' = rmtree tmp s1)"
  by (auto simp: TemporaryDirectory_def split: sum.splits prod.splits)

lemma unlink_step:
  "(if exists p s then unlink p s else (Inr (), s)) = (Inr u, s1) \<longleftrightarrow>
     s p \<noteq> Some Dir \<and> s1 = s(p := None)"
  by (auto simp: exists_def unlink_def split: option.splits node.splits)

subsection \<open>What a successful run went through\<close>

lemma populate_wheel_Inr:
  "populate_wheel e self dist_id dir s = (Inr u, s') \<longleftrightarrow>
     (\<exists>t. target e self = Inr t
        \<and> s (Path2 dir (''__editable__.'' @ dist_id @ ''.pth'')) \<noteq> Some Dir
        \<and> s' = s(Path2 dir (''__editable__.'' @ dist_id @ ''.pth'') \<mapsto> File (t @ newline)))"
  by (auto simp: populate_wheel_def Let_def write_text_def
      split: sum.splits option.splits node.splits)

lemma staging_Inr:
  "staging e self nm wp tmp s = (Inr u, s') \<longleftrightarrow>
     (\<exists>d s2 s3 s4. dist_info_dir self = Some d
        \<and> copytree d (Path2 tmp (Path_name d)) s = (Inr (), s2)
        \<and> install_namespaces_cmd e self tmp nm s2 = (Inr (), s3)
        \<and> populate_wheel e self nm tmp s3 = (Inr (), s4)
        \<and> WheelFile_write_files e wp tmp s4 = (Inr (), s'))"
  by (auto simp: staging_def seq_Inr split: option.splits)

lemma create_wheel_file_Inr:
  "create_wheel_file e self bw s = (Inr p, s') \<longleftrightarrow>
     (\<exists>dd tmp s5. dist_dir self = Some dd \<and> p = Path2 dd (archive_name e bw)
        \<and> s p \<noteq> Some Dir
        \<and> mkdtemp e (archive_name e bw) (s(p := None)) = Inr tmp
        \<and> staging e self (dist_info_name e) p tmp ((s(p := None))(tmp \<mapsto> Dir)) = (Inr (), s5)
        \<and> s' = rmtree tmp s5)"
  by (auto simp: create_wheel_file_def Let_def seq_Inr unlink_step TemporaryDirectory_Inr
      split: option.splits)

lemma create_wheel_file_unlinked:
  "dist_dir self = Some dd \<Longrightarrow> s (Path2 dd (archive_name e bw)) \<noteq> Some Dir \<Longrightarrow>
     create_wheel_file e self bw s =
       seq (TemporaryDirectory e (archive_name e bw)
              (staging e self (dist_info_name e) (Path2 dd (archive_name e bw))))
           (\<lambda>u2 s2. (Inr (Path2 dd (archive_name e bw)), s2))
           (s(Path2 dd (archive_name e bw) := None))"
  apply (simp add: create_wheel_file_def Let_def)
  apply (subst seq_def)
  apply (auto simp: exists_def unlink_def fun_upd_idem split: option.splits node.splits)
  done

lemma create_wheel_file_unlink_fails:
  "dist_dir self = Some dd \<Longrightarrow> s (Path2 dd (archive_name e bw)) = Some Dir \<Longrightarrow>
     create_wheel_file e self bw s = (Inl IsADirectoryError, s)"
  by (simp add: create_wheel_file_def Let_def seq_def exists_def unlink_def)

subsection \<open>What is written stays inside the staging directory\<close>

lemma Path_name_no_sep: "CHR ''/'' \<notin> set (Path_name d)"
  by (auto simp: Path_name_def dest: set_takeWhileD)

lemma Path_name_relative: "Path_name d = [] \<or> hd (Path_name d) \<noteq> CHR ''/''"
  using Path_name_no_sep [of d] by (cases "Path_name d") auto

lemma os_path_join_relative:
  "n = [] \<or> hd n \<noteq> CHR ''/'' \<Longrightarrow> os_path_join a n = with_sep a @ n"
  by (auto simp: os_path_join_def with_sep_def)

lemma prefix_with_sep: "prefix (with_sep (with_sep a @ n)) p \<Longrightarrow> prefix (with_sep a) p"
  by (auto simp: with_sep_def prefix_def split: if_splits)

lemma beneath_join:
  "n = [] \<or> hd n \<noteq> CHR ''/'' \<Longrightarrow> beneath a (Path2 a n)"
  by (simp add: beneath_def Path2_def os_path_join_relative)

lemma beneath_join_below:
  "n = [] \<or> hd n \<noteq> CHR ''/'' \<Longrightarrow> prefix (with_sep (Path2 a n)) p \<Longrightarrow> beneath a p"
  by (auto simp: beneath_def Path2_def os_path_join_relative dest: prefix_with_sep)

lemma copytree_frame:
  assumes "copytree d (Path2 tmp (Path_name d)) s = (r, s')" and "\<not> beneath tmp p"
  shows "s' p = s p"
proof -
  have 1: "p \<noteq> Path2 tmp (Path_name d)"
    using assms(2) beneath_join [OF Path_name_relative, of tmp d] by auto
  have 2: "\<not> prefix (with_sep (Path2 tmp (Path_name d))) p"
    using assms(2) beneath_join_below [OF Path_name_relative, of tmp d p] by auto
  show ?thesis
    using assms(1) 1 2
    by (auto simp: copytree_def split: option.splits node.splits if_splits)
qed

lemma populate_wheel_frame:
  assumes "populate_wheel e self nm tmp s = (r, s')" and "\<not> beneath tmp p"
  shows "s' p = s p"
proof -
  have "p \<noteq> Path2 tmp (''__editable__.'' @ nm @ ''.pth'')"
    using assms(2) beneath_join [of "''__editable__.'' @ nm @ ''.pth''" tmp] by auto
  then show ?thesis
    using assms(1)
    by (auto simp: populate_wheel_def Let_def write_text_def
        split: sum.splits option.splits node.splits)
qed

lemma install_namespaces_cmd_frame:
  assumes "\<forall>ns tmp root s0. \<not> beneath tmp p \<longrightarrow> s0 p = None \<longrightarrow>
             snd (Installer_install_namespaces e ns (os_path_join tmp (dist_info_name e)) root s0) p
               = None"
    and "\<not> beneath tmp p" and "s p = None"
  shows "snd (install_namespaces_cmd e self tmp (dist_info_name e) s) p = None"
  using assms
  by (auto simp: install_namespaces_cmd_def Let_def install_namespaces_def get_target_def
      NamespaceInstaller_init_def split: sum.splits)

lemma staging_failure_frame:
  assumes ins: "\<forall>ns tmp root s0. \<not> beneath tmp wp \<longrightarrow> s0 wp = None \<longrightarrow>
                  snd (Installer_install_namespaces e ns (os_path_join tmp (dist_info_name e)) root s0) wp
                    = None"
    and wr: "\<forall>t s0 er s1. s0 wp = None \<longrightarrow> WheelFile_write_files e wp t s0 = (Inl er, s1)
                  \<longrightarrow> s1 wp = None"
    and nb: "\<not> beneath tmp wp"
    and s: "s wp = None"
    and st: "staging e self (dist_info_name e) wp tmp s = (Inl err, s')"
  shows "s' wp = None"
proof (cases "dist_info_dir self")
  case None
  with st s show ?thesis by (simp add: staging_def)
next
  case (Some d)
  obtain r2 s2 where c: "copytree d (Path2 tmp (Path_name d)) s = (r2, s2)"
    by (cases "copytree d (Path2 tmp (Path_name d)) s")
  have s2: "s2 wp = None" using copytree_frame [OF c nb] s by simp
  obtain r3 s3 where i: "install_namespaces_cmd e self tmp (dist_info_name e) s2 = (r3, s3)"
    by (cases "install_namespaces_cmd e self tmp (dist_info_name e) s2")
  have "snd (install_namespaces_cmd e self tmp (dist_info_name e) s2) wp = None"
    using ins nb s2 by (rule install_namespaces_cmd_frame)
  then have s3: "s3 wp = None" using i by simp
  obtain r4 s4 where p: "populate_wheel e self (dist_info_name e) tmp s3 = (r4, s4)"
    by (cases "populate_wheel e self (dist_info_name e) tmp s3")
  have s4: "s4 wp = None" using populate_wheel_frame [OF p nb] s3 by simp
  show ?thesis
    using st Some c i p s2 s3 s4 wr
    by (auto simp: staging_def seq_def split: sum.splits)
qed

subsection \<open>The concrete build, evaluated\<close>

lemmas demo_defs = demo_env_def demo_bdist_wheel_def demo_cmd_def demo_dist_def demo_fs_def
  demo_wheel_path_def demo_cmd_built_def demo_fs_built_def demo_cmd_initial_def
  demo_fs_initial_def failing_writer_env_def refusing_writer_env_def
  demo_cmd_empty_root_def demo_cmd_src_def demo_cmd_ns_def demo_cmd_bad_suffix_def
  demo_cmd_no_root_def

lemmas model_defs = run_def create_wheel_file_def staging_def populate_wheel_def
  install_namespaces_cmd_def ensure_dist_info_def target_def normalize_path_def
  TemporaryDirectory_def seq_def copytree_def rmtree_def beneath_def with_sep_def unlink_def
  write_text_def mkdir_exist_ok_def exists_def Path2_def os_path_join_def Path_name_def
  endswith_def archive_name_def build_tag_def py_or_def truthy_def newline_def os_curdir_def
  finalize_options_def install_namespaces_def get_target_def get_root_def
  NamespaceInstaller_init_def Let_def

lemma demo_target: "target demo_env demo_cmd_built = Inr ''/proj''"
  by (simp add: demo_defs model_defs)

lemma demo_wheel_path_eq:
  "demo_wheel_path = Path2 ''/proj/dist'' (archive_name demo_env demo_bdist_wheel)"
  by (simp add: demo_defs model_defs)

lemma demo_dist_dir: "dist_dir demo_cmd_built = Some ''/proj/dist''"
  by (simp add: demo_defs)

lemma demo_create_fst:
  "fst (create_wheel_file demo_env demo_cmd_built demo_bdist_wheel demo_fs_built)
     = Inr demo_wheel_path"
  by (simp add: demo_defs model_defs)

lemma demo_create_snd:
  "snd (create_wheel_file demo_env demo_cmd_built demo_bdist_wheel demo_fs_built) demo_wheel_path
     = Some (File (''/proj'' @ newline))"
  by (simp add: demo_defs model_defs)

lemma demo_create:
  "create_wheel_file demo_env demo_cmd_built demo_bdist_wheel demo_fs_built
     = (Inr demo_wheel_path,
        snd (create_wheel_file demo_env demo_cmd_built demo_bdist_wheel demo_fs_built))"
  by (rule pair_collapse) (rule demo_create_fst)

lemma demo_run_fst:
  "fst (run demo_env demo_cmd demo_fs) = Inr (demo_cmd_built, None)"
  by (simp add: demo_defs model_defs)

lemma demo_run_snd:
  "snd (run demo_env demo_cmd demo_fs) demo_wheel_path = Some (File (''/proj'' @ newline))"
  by (simp add: demo_defs model_defs)

lemma failing_run:
  "fst (run failing_writer_env demo_cmd demo_fs) = Inl (External ''No space left on device'')
   \<and> snd (run failing_writer_env demo_cmd demo_fs) demo_wheel_path = Some (File ''PK'')"
  by (simp add: demo_defs model_defs)

lemma failing_create:
  "fst (create_wheel_file failing_writer_env demo_cmd_built demo_bdist_wheel demo_fs_built)
     = Inl (External ''No space left on device'')
   \<and> snd (create_wheel_file failing_writer_env demo_cmd_built demo_bdist_wheel demo_fs_built)
       demo_wheel_path = Some (File ''PK'')"
  by (simp add: demo_defs model_defs)

lemma demo_empty_root:
  "target demo_env demo_cmd_empty_root = Inr ''/proj'' \<and> normalize_path demo_env '''' = ''/work''"
  by (simp add: demo_defs model_defs)

subsection \<open>Option finalization\<close>




section \<open>The claims\<close>

text \<open>
  Claim C1. The redirect file is written at \<^verbatim>\<open>__editable__.{name}.pth\<close> in the directory
  given, its content is the target path followed by one newline, and nothing else on
  disk is changed by writing it; when \<^verbatim>\<open>_create_wheel_file\<close> succeeds, the archive
  writer was run on a staging directory that holds this file, written for the
  distribution's name. (The strings of the model are the bytes of the file: the encoding
  step is not separate.)
\<close>

theorem redirect_file_content:
  "(populate_wheel e self dist_id dir s = (Inr u, s') \<longrightarrow>
      (\<exists>t. target e self = Inr t
         \<and> s' (Path2 dir (''__editable__.'' @ dist_id @ ''.pth'')) = Some (File (t @ newline))
         \<and> (\<forall>p. p \<noteq> Path2 dir (''__editable__.'' @ dist_id @ ''.pth'') \<longrightarrow> s' p = s p)))
   \<and> (create_wheel_file e self bw s = (Inr wheel_path, s'') \<longrightarrow>
      (\<exists>t tmp s4 s5. target e self = Inr t
         \<and> s4 (Path2 tmp (''__editable__.'' @ dist_info_name e @ ''.pth'')) = Some (File (t @ newline))
         \<and> WheelFile_write_files e wheel_path tmp s4 = (Inr (), s5)
         \<and> s'' = rmtree tmp s5))"
proof (intro conjI impI)
  assume "populate_wheel e self dist_id dir s = (Inr u, s')"
  then show "\<exists>t. target e self = Inr t
         \<and> s' (Path2 dir (''__editable__.'' @ dist_id @ ''.pth'')) = Some (File (t @ newline))
         \<and> (\<forall>p. p \<noteq> Path2 dir (''__editable__.'' @ dist_id @ ''.pth'') \<longrightarrow> s' p = s p)"
    by (auto simp: populate_wheel_Inr)
next
  assume "create_wheel_file e self bw s = (Inr wheel_path, s'')"
  then obtain tmp s0 s5 where
    st: "staging e self (dist_info_name e) wheel_path tmp s0 = (Inr (), s5)"
    and fin: "s'' = rmtree tmp s5"
    by (auto simp: create_wheel_file_Inr)
  from st obtain s3 s4 where
    pop: "populate_wheel e self (dist_info_name e) tmp s3 = (Inr (), s4)"
    and wr: "WheelFile_write_files e wheel_path tmp s4 = (Inr (), s5)"
    by (auto simp: staging_Inr)
  from pop obtain t where "target e self = Inr t"
    and "s4 (Path2 tmp (''__editable__.'' @ dist_info_name e @ ''.pth'')) = Some (File (t @ newline))"
    by (auto simp: populate_wheel_Inr)
  with wr fin show "\<exists>t tmp s4 s5. target e self = Inr t
         \<and> s4 (Path2 tmp (''__editable__.'' @ dist_info_name e @ ''.pth'')) = Some (File (t @ newline))
         \<and> WheelFile_write_files e wheel_path tmp s4 = (Inr (), s5)
         \<and> s'' = rmtree tmp s5"
    by blast
qed

theorem redirect_file_content_witness:
  "populate_wheel demo_env demo_cmd_built ''foo'' ''/tmp/stage'' demo_fs_built
     = (Inr (), demo_fs_built(''/tmp/stage/__editable__.foo.pth'' \<mapsto> File (''/proj'' @ newline)))
   \<and> fst (create_wheel_file demo_env demo_cmd_built demo_bdist_wheel demo_fs_built)
       = Inr demo_wheel_path
   \<and> (\<exists>tmp s4 s5.
         s4 (Path2 tmp (''__editable__.'' @ dist_info_name demo_env @ ''.pth''))
           = Some (File (''/proj'' @ newline))
         \<and> WheelFile_write_files demo_env demo_wheel_path tmp s4 = (Inr (), s5))"
proof -
  have 1: "populate_wheel demo_env demo_cmd_built ''foo'' ''/tmp/stage'' demo_fs_built
     = (Inr (), demo_fs_built(''/tmp/stage/__editable__.foo.pth'' \<mapsto> File (''/proj'' @ newline)))"
    by (simp add: demo_defs model_defs)
  from redirect_file_content [of demo_env demo_cmd_built "''foo''" "''/tmp/stage''"
      demo_fs_built "()" _ demo_bdist_wheel demo_wheel_path
      "snd (create_wheel_file demo_env demo_cmd_built demo_bdist_wheel demo_fs_built)"]
    demo_create
  have "\<exists>t tmp s4 s5. target demo_env demo_cmd_built = Inr t
         \<and> s4 (Path2 tmp (''__editable__.'' @ dist_info_name demo_env @ ''.pth''))
             = Some (File (t @ newline))
         \<and> WheelFile_write_files demo_env demo_wheel_path tmp s4 = (Inr (), s5)"
    by blast
  then have "\<exists>tmp s4 s5.
         s4 (Path2 tmp (''__editable__.'' @ dist_info_name demo_env @ ''.pth''))
           = Some (File (''/proj'' @ newline))
         \<and> WheelFile_write_files demo_env demo_wheel_path tmp s4 = (Inr (), s5)"
    by (auto simp: demo_target)
  with 1 demo_create_fst show ?thesis by blast
qed

text \<open>
  Claim C2. The path that \<^verbatim>\<open>_create_wheel_file\<close> returns is the output directory joined
  with the name, the build tag, the hyphen-joined tag and the suffix \<^verbatim>\<open>.whl\<close>; the build
  tag is \<^verbatim>\<open>0.editable\<close> and starts with a digit. For an output directory without a
  trailing separator and a name that is not absolute, that is the string
  \<^verbatim>\<open>{dist_dir}/{name}-0.editable-{tag}.whl\<close>.
\<close>

theorem wheel_path_name:
  assumes "create_wheel_file e self bw s = (Inr p, s')"
  shows "\<exists>dd. dist_dir self = Some dd
           \<and> p = Path2 dd (dist_info_name e @ ''-'' @ build_tag @ ''-''
                            @ str_join ''-'' (get_tag bw) @ ''.whl'')
           \<and> build_tag = ''0.editable''
           \<and> hd build_tag \<in> set ''0123456789''
           \<and> (dd \<noteq> [] \<and> last dd \<noteq> CHR ''/''
                \<and> (dist_info_name e = [] \<or> hd (dist_info_name e) \<noteq> CHR ''/'')
              \<longrightarrow> p = dd @ ''/'' @ dist_info_name e @ ''-0.editable-''
                        @ str_join ''-'' (get_tag bw) @ ''.whl'')"
proof -
  from assms obtain dd where dd: "dist_dir self = Some dd"
    and p: "p = Path2 dd (archive_name e bw)"
    by (auto simp: create_wheel_file_Inr)
  have "dd \<noteq> [] \<and> last dd \<noteq> CHR ''/''
          \<and> (dist_info_name e = [] \<or> hd (dist_info_name e) \<noteq> CHR ''/'')
        \<longrightarrow> p = dd @ ''/'' @ dist_info_name e @ ''-0.editable-''
                  @ str_join ''-'' (get_tag bw) @ ''.whl''"
    by (auto simp: p Path2_def os_path_join_def archive_name_def build_tag_def hd_append)
  with dd p show ?thesis
    by (simp add: archive_name_def build_tag_def)
qed

theorem wheel_path_name_witness:
  "fst (create_wheel_file demo_env demo_cmd_built demo_bdist_wheel demo_fs_built)
     = Inr demo_wheel_path
   \<and> demo_wheel_path = Path2 ''/proj/dist'' (''foo'' @ ''-'' @ build_tag @ ''-''
                           @ str_join ''-'' [''py3'', ''none'', ''any''] @ ''.whl'')
   \<and> demo_wheel_path = ''/proj/dist/foo-0.editable-py3-none-any.whl''"
  using wheel_path_name [OF demo_create] demo_create_fst
  by (simp add: demo_defs)

text \<open>
  Claim C3. For a supplied dist-info directory: when its name ends with \<^verbatim>\<open>.dist-info\<close>
  and an entry \<^verbatim>\<open>METADATA\<close> exists in it, \<^verbatim>\<open>_ensure_dist_info\<close> returns with the command
  and the disk unchanged; otherwise it raises \<^verbatim>\<open>AssertionError\<close>, and so does \<^verbatim>\<open>run\<close>,
  with the disk as it was: no collaborator has run and no archive was written.
\<close>

theorem ensure_dist_info_validates:
  assumes "dist_info_dir self = Some d"
  shows "if endswith d ''.dist-info'' \<and> exists (Path2 d ''METADATA'') s
         then ensure_dist_info e self s = (Inr self, s)
         else ensure_dist_info e self s = (Inl AssertionError, s)
              \<and> run e self s = (Inl AssertionError, s)"
  using assms by (simp add: ensure_dist_info_def run_def seq_def)

theorem ensure_dist_info_validates_witness:
  "ensure_dist_info demo_env demo_cmd_built demo_fs_built = (Inr demo_cmd_built, demo_fs_built)
   \<and> ensure_dist_info demo_env demo_cmd_bad_suffix demo_fs_built
       = (Inl AssertionError, demo_fs_built)
   \<and> run demo_env demo_cmd_bad_suffix demo_fs_built = (Inl AssertionError, demo_fs_built)
   \<and> run demo_env demo_cmd_built demo_fs = (Inl AssertionError, demo_fs)"
proof -
  have 1: "dist_info_dir demo_cmd_built = Some ''/proj/dist/foo-1.0.dist-info''"
    by (simp add: demo_defs)
  have 2: "dist_info_dir demo_cmd_bad_suffix = Some ''/proj/dist/foo-1.0.egg-info''"
    by (simp add: demo_defs)
  from ensure_dist_info_validates [OF 1, of demo_fs_built demo_env]
    ensure_dist_info_validates [OF 2, of demo_fs_built demo_env]
    ensure_dist_info_validates [OF 1, of demo_fs demo_env]
  show ?thesis
    by (simp add: demo_defs endswith_def exists_def Path2_def os_path_join_def suffix_def)
qed

text \<open>
  Claim C4. However \<^verbatim>\<open>_create_wheel_file\<close> ends, no staging directory is left. Either
  none was created (the old archive could not be unlinked, and the disk is untouched, or
  the temporary directory could not be made, and only the old archive is gone), or the
  one that was created is absent afterwards together with everything beneath it, whether
  the body of the \<^verbatim>\<open>with\<close> block returned or raised.
\<close>

theorem staging_directory_removed:
  assumes "dist_dir self = Some dd"
    and "wheel_path = Path2 dd (archive_name e bw)"
  shows "(s wheel_path = Some Dir \<longrightarrow> snd (create_wheel_file e self bw s) = s)
       \<and> (s wheel_path \<noteq> Some Dir \<longrightarrow>
            (case mkdtemp e (archive_name e bw) (s(wheel_path := None)) of
               Inl err \<Rightarrow> snd (create_wheel_file e self bw s) = s(wheel_path := None)
             | Inr tmp \<Rightarrow> (\<forall>p. beneath tmp p \<longrightarrow> snd (create_wheel_file e self bw s) p = None)))"
proof (intro conjI impI)
  assume "s wheel_path = Some Dir"
  with assms show "snd (create_wheel_file e self bw s) = s"
    by (simp add: create_wheel_file_unlink_fails)
next
  assume "s wheel_path \<noteq> Some Dir"
  with assms have
    "snd (create_wheel_file e self bw s) =
       snd (TemporaryDirectory e (archive_name e bw)
              (staging e self (dist_info_name e) wheel_path) (s(wheel_path := None)))"
    using create_wheel_file_unlinked [of self dd s e bw] by (simp add: snd_seq_return)
  then show "case mkdtemp e (archive_name e bw) (s(wheel_path := None)) of
               Inl err \<Rightarrow> snd (create_wheel_file e self bw s) = s(wheel_path := None)
             | Inr tmp \<Rightarrow> (\<forall>p. beneath tmp p \<longrightarrow> snd (create_wheel_file e self bw s) p = None)"
    by (auto simp: TemporaryDirectory_removes split: sum.splits)
      (simp add: TemporaryDirectory_def)
qed

theorem staging_directory_removed_witness:
  "snd (create_wheel_file demo_env demo_cmd_built demo_bdist_wheel demo_fs_built)
     ''/tmp/tmpk3v9foo-0.editable-py3-none-any.whl'' = None
   \<and> snd (create_wheel_file demo_env demo_cmd_built demo_bdist_wheel demo_fs_built)
     ''/tmp/tmpk3v9foo-0.editable-py3-none-any.whl/__editable__.foo.pth'' = None
   \<and> snd (create_wheel_file failing_writer_env demo_cmd_built demo_bdist_wheel demo_fs_built)
     ''/tmp/tmpk3v9foo-0.editable-py3-none-any.whl/__editable__.foo.pth'' = None"
proof -
  let ?tmp = "''/tmp/tmpk3v9foo-0.editable-py3-none-any.whl''"
  have wp': "demo_wheel_path
               = Path2 ''/proj/dist'' (archive_name failing_writer_env demo_bdist_wheel)"
    by (simp add: demo_defs model_defs)
  have nd: "demo_fs_built demo_wheel_path \<noteq> Some Dir"
    by (simp add: demo_defs)
  have tmp: "mkdtemp demo_env (archive_name demo_env demo_bdist_wheel)
               (demo_fs_built(demo_wheel_path := None)) = Inr ?tmp"
    and tmp': "mkdtemp failing_writer_env (archive_name failing_writer_env demo_bdist_wheel)
               (demo_fs_built(demo_wheel_path := None)) = Inr ?tmp"
    by (simp_all add: demo_defs model_defs)
  have b: "beneath ?tmp ?tmp"
    "beneath ?tmp ''/tmp/tmpk3v9foo-0.editable-py3-none-any.whl/__editable__.foo.pth''"
    by (simp_all add: beneath_def with_sep_def)
  from staging_directory_removed [OF demo_dist_dir demo_wheel_path_eq, of demo_fs_built]
    staging_directory_removed [OF demo_dist_dir wp', of demo_fs_built]
    nd tmp tmp' b
  show ?thesis by simp
qed

text \<open>
  Claim C5, as amended. The command does not keep a failed build away from the final
  path: the archive writer is handed that path itself, and what it had written when it
  failed stays there. What does hold: when \<^verbatim>\<open>_create_wheel_file\<close> fails, the final path
  is empty afterwards or nothing on disk was changed at all, provided the archive writer
  leaves nothing at its destination when it fails and the namespace installer, run for
  the staging directory, writes nothing at the final path.
\<close>

theorem failed_build_leaves_no_archive:
  assumes fail: "create_wheel_file e self bw s = (Inl err, s')"
    and dd: "dist_dir self = Some dd"
    and wp: "wheel_path = Path2 dd (archive_name e bw)"
    and ins: "\<forall>ns tmp root s0. \<not> beneath tmp wheel_path \<longrightarrow> s0 wheel_path = None \<longrightarrow>
                snd (Installer_install_namespaces e ns
                       (os_path_join tmp (dist_info_name e)) root s0) wheel_path = None"
    and wr: "\<forall>t s0 er s1. s0 wheel_path = None \<longrightarrow>
                WheelFile_write_files e wheel_path t s0 = (Inl er, s1) \<longrightarrow> s1 wheel_path = None"
  shows "s' wheel_path = None \<or> s' = s"
proof (cases "s wheel_path = Some Dir")
  case True
  with fail dd wp show ?thesis
    by (simp add: create_wheel_file_unlink_fails)
next
  case False
  let ?s1 = "s(wheel_path := None)"
  from False fail dd wp
  have "seq (TemporaryDirectory e (archive_name e bw)
               (staging e self (dist_info_name e) wheel_path))
            (\<lambda>u2 s2. (Inr wheel_path, s2)) ?s1 = (Inl err, s')"
    using create_wheel_file_unlinked [of self dd s e bw] by simp
  then have td: "TemporaryDirectory e (archive_name e bw)
               (staging e self (dist_info_name e) wheel_path) ?s1 = (Inl err, s')"
    by (simp add: seq_Inl)
  show ?thesis
  proof (cases "mkdtemp e (archive_name e bw) ?s1")
    case (Inl x)
    with td show ?thesis by (auto simp: TemporaryDirectory_def)
  next
    case (Inr tmp)
    with td obtain s2 where
      st: "staging e self (dist_info_name e) wheel_path tmp (?s1(tmp \<mapsto> Dir)) = (Inl err, s2)"
      and fin: "s' = rmtree tmp s2"
      by (auto simp: TemporaryDirectory_def split: prod.splits)
    show ?thesis
    proof (cases "beneath tmp wheel_path")
      case True
      with fin show ?thesis by (simp add: rmtree_def)
    next
      case False
      then have "wheel_path \<noteq> tmp" by (auto simp: beneath_def)
      then have "(?s1(tmp \<mapsto> Dir)) wheel_path = None" by simp
      with ins wr False have "s2 wheel_path = None"
        using st by (rule staging_failure_frame)
      with fin show ?thesis by (simp add: rmtree_def)
    qed
  qed
qed

theorem failed_build_leaves_no_archive_witness:
  "fst (create_wheel_file refusing_writer_env demo_cmd_built demo_bdist_wheel
          (demo_fs_built(demo_wheel_path \<mapsto> File ''old archive'')))
     = Inl (External ''Permission denied'')
   \<and> snd (create_wheel_file refusing_writer_env demo_cmd_built demo_bdist_wheel
          (demo_fs_built(demo_wheel_path \<mapsto> File ''old archive''))) demo_wheel_path = None"
proof -
  let ?s = "demo_fs_built(demo_wheel_path \<mapsto> File ''old archive'')"
  let ?r = "create_wheel_file refusing_writer_env demo_cmd_built demo_bdist_wheel ?s"
  have f: "fst ?r = Inl (External ''Permission denied'')"
    by (simp add: demo_defs model_defs)
  then have fail: "?r = (Inl (External ''Permission denied''), snd ?r)"
    by (rule pair_collapse)
  have wp: "demo_wheel_path
              = Path2 ''/proj/dist'' (archive_name refusing_writer_env demo_bdist_wheel)"
    by (simp add: demo_defs model_defs)
  have ins: "\<forall>ns tmp root s0. \<not> beneath tmp demo_wheel_path \<longrightarrow> s0 demo_wheel_path = None \<longrightarrow>
                snd (Installer_install_namespaces refusing_writer_env ns
                       (os_path_join tmp (dist_info_name refusing_writer_env)) root s0)
                  demo_wheel_path = None"
    by (auto simp: refusing_writer_env_def demo_env_def os_path_join_def beneath_def
        with_sep_def prefix_def split: if_splits)
  have wr: "\<forall>t s0 er s1. s0 demo_wheel_path = None \<longrightarrow>
                WheelFile_write_files refusing_writer_env demo_wheel_path t s0 = (Inl er, s1)
                \<longrightarrow> s1 demo_wheel_path = None"
    by (auto simp: refusing_writer_env_def demo_env_def)
  have ne: "snd ?r \<noteq> ?s \<or> snd ?r demo_wheel_path = None"
    by (simp add: demo_defs model_defs)
  from failed_build_leaves_no_archive [OF fail demo_dist_dir wp ins wr] ne
  have "snd ?r demo_wheel_path = None" by auto
  with f show ?thesis by simp
qed

text \<open>
  The claim as it was stated fails where the archive writer gives up after its first
  bytes: the build raises, and the final path, empty before, holds the fragment.
\<close>

theorem failed_build_leaves_archive_counterexample:
  "demo_fs demo_wheel_path = None
   \<and> fst (run failing_writer_env demo_cmd demo_fs) = Inl (External ''No space left on device'')
   \<and> snd (run failing_writer_env demo_cmd demo_fs) demo_wheel_path = Some (File ''PK'')
   \<and> fst (create_wheel_file failing_writer_env demo_cmd_built demo_bdist_wheel demo_fs_built)
       = Inl (External ''No space left on device'')
   \<and> snd (create_wheel_file failing_writer_env demo_cmd_built demo_bdist_wheel demo_fs_built)
       demo_wheel_path = Some (File ''PK'')"
  using failing_run failing_create
  by (simp add: demo_fs_def demo_wheel_path_def)

text \<open>
  Claim C6, as amended. \<^verbatim>\<open>_create_wheel_file\<close> returns the path of the archive to \<^verbatim>\<open>run\<close>;
  \<^verbatim>\<open>run\<close> drops it and returns \<^verbatim>\<open>None\<close> to its own caller. So when \<^verbatim>\<open>run\<close> succeeds its
  value is \<^verbatim>\<open>None\<close>, and its last step was a call of \<^verbatim>\<open>_create_wheel_file\<close> that
  returned the output directory joined with the archive name.
\<close>

theorem run_returns_None:
  assumes "run e self s = (Inr (self', r), s')"
  shows "r = None
         \<and> (\<exists>s3 p dd. create_wheel_file e self' (reinitialize_bdist_wheel e) s3 = (Inr p, s')
               \<and> dist_dir self' = Some dd
               \<and> p = Path2 dd (archive_name e (reinitialize_bdist_wheel e)))"
proof -
  from assms obtain s3 p where
    3: "create_wheel_file e self' (reinitialize_bdist_wheel e) s3 = (Inr p, s')"
    and 5: "r = None"
    by (auto simp: run_def Let_def seq_Inr)
  from 3 obtain dd where "dist_dir self' = Some dd"
    and "p = Path2 dd (archive_name e (reinitialize_bdist_wheel e))"
    by (auto simp: create_wheel_file_Inr)
  with 3 5 show ?thesis by blast
qed

theorem run_returns_None_witness:
  "fst (run demo_env demo_cmd demo_fs) = Inr (demo_cmd_built, None)
   \<and> (\<exists>s3. create_wheel_file demo_env demo_cmd_built demo_bdist_wheel s3
              = (Inr demo_wheel_path, snd (run demo_env demo_cmd demo_fs)))"
proof -
  have "run demo_env demo_cmd demo_fs
          = (Inr (demo_cmd_built, None), snd (run demo_env demo_cmd demo_fs))"
    by (rule pair_collapse) (rule demo_run_fst)
  from run_returns_None [OF this]
  obtain s3 p dd where
    "create_wheel_file demo_env demo_cmd_built (reinitialize_bdist_wheel demo_env) s3
       = (Inr p, snd (run demo_env demo_cmd demo_fs))"
    and "dist_dir demo_cmd_built = Some dd"
    and "p = Path2 dd (archive_name demo_env (reinitialize_bdist_wheel demo_env))"
    by blast
  moreover have "reinitialize_bdist_wheel demo_env = demo_bdist_wheel"
    by (simp add: demo_env_def)
  ultimately have "create_wheel_file demo_env demo_cmd_built demo_bdist_wheel s3
       = (Inr demo_wheel_path, snd (run demo_env demo_cmd demo_fs))"
    using demo_dist_dir demo_wheel_path_eq by simp
  with demo_run_fst show ?thesis by blast
qed

text \<open>
  The claim as it was stated fails on the concrete build: it succeeds, the archive is at
  its path, and the value of \<^verbatim>\<open>run\<close> is \<^verbatim>\<open>None\<close>, not that path.
\<close>

theorem run_returns_path_counterexample:
  "fst (run demo_env demo_cmd demo_fs) = Inr (demo_cmd_built, None)
   \<and> fst (run demo_env demo_cmd demo_fs) \<noteq> Inr (demo_cmd_built, Some demo_wheel_path)
   \<and> snd (run demo_env demo_cmd demo_fs) demo_wheel_path = Some (File (''/proj'' @ newline))"
  using demo_run_fst demo_run_snd by simp

text \<open>
  Claim C7, as amended. The target is the normalization of the entry of the package
  directory mapping for the empty key when that entry is present and not the empty
  string, and of the project directory when the entry is absent or empty. The
  normalization is \<^verbatim>\<open>normcase\<close> of \<^verbatim>\<open>realpath\<close> of \<^verbatim>\<open>normpath\<close>, after \<^verbatim>\<open>abspath\<close> on Cygwin
  only.
\<close>

theorem target_resolution:
  assumes "pkg = (case package_dir (distribution self) of None \<Rightarrow> Map.empty | Some m \<Rightarrow> m)"
  shows "(\<forall>d. pkg '''' = Some d \<and> d \<noteq> '''' \<longrightarrow> target e self = Inr (normalize_path e d))
       \<and> (pkg '''' = None \<or> pkg '''' = Some '''' \<longrightarrow>
            (\<forall>pd. project_dir self = Some pd \<longrightarrow> target e self = Inr (normalize_path e pd)))
       \<and> (\<forall>f. normalize_path e f =
            os_path_normcase e (os_path_realpath e (os_path_normpath e
              (if sys_platform e = ''cygwin'' then os_path_abspath e f else f))))"
  using assms
  by (auto simp: target_def py_or_def truthy_def normalize_path_def Let_def)

theorem target_resolution_witness:
  "target demo_env demo_cmd_src = Inr ''/proj/src''
   \<and> target demo_env demo_cmd = Inr ''/proj''
   \<and> normalize_path demo_env ''/proj/src'' = ''/proj/src''"
proof -
  have 1: "(case package_dir (distribution demo_cmd_src) of None \<Rightarrow> Map.empty | Some m \<Rightarrow> m) ''''
             = Some ''/proj/src''"
    and 2: "(case package_dir (distribution demo_cmd) of None \<Rightarrow> Map.empty | Some m \<Rightarrow> m) ''''
             = None"
    and 3: "project_dir demo_cmd = Some ''/proj''"
    by (simp_all add: demo_defs)
  have 4: "normalize_path demo_env ''/proj/src'' = ''/proj/src''"
    and 5: "normalize_path demo_env ''/proj'' = ''/proj''"
    by (simp_all add: demo_defs model_defs)
  from target_resolution [OF refl, of demo_cmd_src demo_env]
    target_resolution [OF refl, of demo_cmd demo_env] 1 2 3 4 5
  show ?thesis by simp
qed

text \<open>
  The claim as it was stated fails where the root package is mapped to the empty string
  and the build runs from another directory than the project's: the entry is configured,
  yet the target is the project directory, not the normalization of the entry.
\<close>

theorem target_resolution_counterexample:
  "the (package_dir (distribution demo_cmd_empty_root)) '''' = Some ''''
   \<and> project_dir demo_cmd_empty_root = Some ''/proj''
   \<and> target demo_env demo_cmd_empty_root = Inr ''/proj''
   \<and> normalize_path demo_env '''' = ''/work''
   \<and> target demo_env demo_cmd_empty_root \<noteq> Inr (normalize_path demo_env '''')"
  using demo_empty_root by (simp add: demo_defs)

text \<open>
  Claim C8. Without declared namespace packages \<^verbatim>\<open>_install_namespaces\<close> returns at once,
  whatever the installer would do; with declared ones its effect is the installer's,
  run with the installation directory joined with the editable name as installation
  target and the \<^verbatim>\<open>repr\<close> of the target path as root, which are what \<^verbatim>\<open>_get_target\<close> and
  \<^verbatim>\<open>_get_root\<close> return; and \<^verbatim>\<open>_create_wheel_file\<close> calls it with the staging directory
  and the distribution's name.
\<close>

theorem namespace_installer_invocation:
  "(namespace_packages (distribution self) = None
      \<or> namespace_packages (distribution self) = Some [] \<longrightarrow>
      (\<forall>f. install_namespaces_cmd (e\<lparr>Installer_install_namespaces := f\<rparr>) self dir nm s
             = (Inr (), s)))
   \<and> (\<forall>ns t. namespace_packages (distribution self) = Some ns \<and> ns \<noteq> []
          \<and> target e self = Inr t \<longrightarrow>
        install_namespaces_cmd e self dir nm s
          = Installer_install_namespaces e ns (os_path_join dir nm) (py_repr e t) s
        \<and> get_target (NamespaceInstaller_init (distribution self) dir nm t)
            = os_path_join dir nm
        \<and> get_root e (NamespaceInstaller_init (distribution self) dir nm t) = py_repr e t)
   \<and> (create_wheel_file e self bw s = (Inr p, s') \<longrightarrow>
        (\<exists>tmp s1 s2 s3. mkdtemp e (archive_name e bw) s1 = Inr tmp
           \<and> install_namespaces_cmd e self tmp (dist_info_name e) s2 = (Inr (), s3)))"
proof (intro conjI impI allI)
  fix f
  assume "namespace_packages (distribution self) = None
            \<or> namespace_packages (distribution self) = Some []"
  then show "install_namespaces_cmd (e\<lparr>Installer_install_namespaces := f\<rparr>) self dir nm s
               = (Inr (), s)"
    by (auto simp: install_namespaces_cmd_def Let_def)
next
  fix ns t
  assume a: "namespace_packages (distribution self) = Some ns \<and> ns \<noteq> []
               \<and> target e self = Inr t"
  then show "install_namespaces_cmd e self dir nm s
               = Installer_install_namespaces e ns (os_path_join dir nm) (py_repr e t) s"
    by (simp add: install_namespaces_cmd_def Let_def install_namespaces_def
        NamespaceInstaller_init_def get_target_def get_root_def)
  show "get_target (NamespaceInstaller_init (distribution self) dir nm t) = os_path_join dir nm"
    by (simp add: NamespaceInstaller_init_def get_target_def)
  show "get_root e (NamespaceInstaller_init (distribution self) dir nm t) = py_repr e t"
    by (simp add: NamespaceInstaller_init_def get_root_def)
next
  assume "create_wheel_file e self bw s = (Inr p, s')"
  then obtain tmp s1 s0 s5 where
    m: "mkdtemp e (archive_name e bw) s1 = Inr tmp"
    and st: "staging e self (dist_info_name e) p tmp s0 = (Inr (), s5)"
    unfolding create_wheel_file_Inr by blast
  from st obtain s2 s3 where
    "install_namespaces_cmd e self tmp (dist_info_name e) s2 = (Inr (), s3)"
    unfolding staging_Inr by blast
  with m show "\<exists>tmp s1 s2 s3. mkdtemp e (archive_name e bw) s1 = Inr tmp
           \<and> install_namespaces_cmd e self tmp (dist_info_name e) s2 = (Inr (), s3)"
    by blast
qed

theorem namespace_installer_invocation_witness:
  "install_namespaces_cmd demo_env demo_cmd_built ''/tmp/stage'' ''foo'' demo_fs_built
     = (Inr (), demo_fs_built)
   \<and> install_namespaces_cmd demo_env demo_cmd_ns ''/tmp/stage'' ''foo'' demo_fs_built
     = Installer_install_namespaces demo_env [''ns''] ''/tmp/stage/foo''
         (py_repr demo_env ''/proj'') demo_fs_built
   \<and> fst (create_wheel_file demo_env demo_cmd_ns demo_bdist_wheel demo_fs_built)
       = Inr demo_wheel_path"
proof -
  have 1: "namespace_packages (distribution demo_cmd_built) = None"
    and 2: "namespace_packages (distribution demo_cmd_ns) = Some [''ns'']"
    and 3: "target demo_env demo_cmd_ns = Inr ''/proj''"
    and 4: "os_path_join ''/tmp/stage'' ''foo'' = ''/tmp/stage/foo''"
    by (simp_all add: demo_defs model_defs)
  have 5: "fst (create_wheel_file demo_env demo_cmd_ns demo_bdist_wheel demo_fs_built)
             = Inr demo_wheel_path"
    by (simp add: demo_defs model_defs)
  then have 6: "create_wheel_file demo_env demo_cmd_ns demo_bdist_wheel demo_fs_built
             = (Inr demo_wheel_path,
                snd (create_wheel_file demo_env demo_cmd_ns demo_bdist_wheel demo_fs_built))"
    by (rule pair_collapse)
  have 7: "demo_env\<lparr>Installer_install_namespaces := Installer_install_namespaces demo_env\<rparr>
             = demo_env"
    by simp
  from namespace_installer_invocation [of demo_cmd_built demo_env "''/tmp/stage''" "''foo''"
      demo_fs_built] 1 7
  have a: "install_namespaces_cmd demo_env demo_cmd_built ''/tmp/stage'' ''foo'' demo_fs_built
     = (Inr (), demo_fs_built)"
    by metis
  from namespace_installer_invocation [of demo_cmd_ns demo_env "''/tmp/stage''" "''foo''"
      demo_fs_built demo_bdist_wheel demo_wheel_path
      "snd (create_wheel_file demo_env demo_cmd_ns demo_bdist_wheel demo_fs_built)"] 2 3 4 6
  have b: "install_namespaces_cmd demo_env demo_cmd_ns ''/tmp/stage'' ''foo'' demo_fs_built
     = Installer_install_namespaces demo_env [''ns''] ''/tmp/stage/foo''
         (py_repr demo_env ''/proj'') demo_fs_built"
    by simp
  from a b 5 show ?thesis by simp
qed

text \<open>
  Claim C9. With a file at the final archive path, \<^verbatim>\<open>_create_wheel_file\<close> does exactly
  what it does on the same disk without that file: the file is removed first, and
  neither the result nor the disk afterwards depends on what it held.
\<close>

theorem old_archive_not_retained:
  assumes "dist_dir self = Some dd"
    and "wheel_path = Path2 dd (archive_name e bw)"
    and "s wheel_path = Some (File old)"
  shows "create_wheel_file e self bw s = create_wheel_file e self bw (s(wheel_path := None))"
  using assms
  by (simp add: create_wheel_file_def Let_def seq_def exists_def unlink_def)

theorem old_archive_not_retained_witness:
  "create_wheel_file demo_env demo_cmd_built demo_bdist_wheel
       (demo_fs_built(demo_wheel_path \<mapsto> File ''old archive''))
     = create_wheel_file demo_env demo_cmd_built demo_bdist_wheel demo_fs_built
   \<and> snd (create_wheel_file demo_env demo_cmd_built demo_bdist_wheel
            (demo_fs_built(demo_wheel_path \<mapsto> File ''old archive''))) demo_wheel_path
       = Some (File (''/proj'' @ newline))"
proof -
  have old: "(demo_fs_built(demo_wheel_path \<mapsto> File ''old archive'')) demo_wheel_path
               = Some (File ''old archive'')"
    by simp
  have same: "(demo_fs_built(demo_wheel_path \<mapsto> File ''old archive''))(demo_wheel_path := None)
               = demo_fs_built"
    by (simp add: demo_defs fun_eq_iff)
  from old_archive_not_retained
      [where s = "demo_fs_built(demo_wheel_path \<mapsto> File ''old archive'')"
         and old = "''old archive''", OF demo_dist_dir demo_wheel_path_eq old]
    same demo_create_snd
  show ?thesis by simp
qed



end
